theory Spec2Isabelle
  imports Complex_Main
begin

section \<open>JavaScript values\<close>

text \<open>
  The parser of \<^verbatim>\<open>src/src/gpx.ts\<close> works on the tree that the XML decoder returns: nested
  objects, arrays, strings, numbers and booleans. The tree is modelled as the datatype
  \<open>jsval\<close>; an object is an association list, read at the first binding of a key.

  A JavaScript number is either finite or one of the three special values. Finite numbers
  are modelled as exact reals: neither the rounding nor the bounded range of IEEE doubles
  is part of the model, and negative zero is zero.
\<close>

datatype jsnum = Fin real | NaN | PInf | NInf

datatype jsval =
    Undefined
  | Null
  | Bool bool
  | Num jsnum
  | Str string
  | Arr "jsval list"
  | Obj "(string \<times> jsval) list"

text \<open>\<^verbatim>\<open>Number.isFinite\<close> on a number.\<close>

fun isFinite :: "jsnum \<Rightarrow> bool" where
  "isFinite (Fin x) = True"
| "isFinite NaN = False"
| "isFinite PInf = False"
| "isFinite NInf = False"

fun js_neg :: "jsnum \<Rightarrow> jsnum" where
  "js_neg (Fin x) = Fin (- x)"
| "js_neg NaN = NaN"
| "js_neg PInf = NInf"
| "js_neg NInf = PInf"

subsection \<open>The coercion \<^verbatim>\<open>Number(v)\<close>\<close>

text \<open>
  Strings are converted by the grammar of ECMAScript's StringToNumber: surrounding white
  space is removed, the empty string is 0, then come the binary, octal and hexadecimal
  literals, an optional sign, \<^verbatim>\<open>Infinity\<close>, and decimal literals with an optional
  fraction and exponent; everything else is NaN. Strings are byte strings here, so the white
  space is the ASCII white space.
\<close>

definition is_ws :: "char \<Rightarrow> bool" where
  "is_ws c \<longleftrightarrow> c \<in> {CHR 0x09, CHR 0x0A, CHR 0x0B, CHR 0x0C, CHR 0x0D, CHR 0x20}"

definition trim :: "string \<Rightarrow> string" where
  "trim s = rev (dropWhile is_ws (rev (dropWhile is_ws s)))"

definition digit_val :: "char \<Rightarrow> nat option" where
  "digit_val c =
     (let n = (of_char c :: nat) in
      if 48 \<le> n \<and> n \<le> 57 then Some (n - 48)
      else if 97 \<le> n \<and> n \<le> 102 then Some (n - 87)
      else if 65 \<le> n \<and> n \<le> 70 then Some (n - 55)
      else None)"

definition is_digit_in :: "nat \<Rightarrow> char \<Rightarrow> bool" where
  "is_digit_in b c = (case digit_val c of Some d \<Rightarrow> d < b | None \<Rightarrow> False)"

definition all_digits :: "nat \<Rightarrow> string \<Rightarrow> bool" where
  "all_digits b s \<longleftrightarrow> s \<noteq> [] \<and> list_all (is_digit_in b) s"

definition digits_value :: "nat \<Rightarrow> string \<Rightarrow> nat" where
  "digits_value b s =
     foldl (\<lambda>acc c. acc * b + (case digit_val c of Some d \<Rightarrow> d | None \<Rightarrow> 0)) 0 s"

definition nondecimal :: "string \<Rightarrow> nat option" where
  "nondecimal t =
     (case t of
        z # x # ds \<Rightarrow>
          if z \<noteq> CHR ''0'' then None
          else if (x = CHR ''b'' \<or> x = CHR ''B'') \<and> all_digits 2 ds then Some (digits_value 2 ds)
          else if (x = CHR ''o'' \<or> x = CHR ''O'') \<and> all_digits 8 ds then Some (digits_value 8 ds)
          else if (x = CHR ''x'' \<or> x = CHR ''X'') \<and> all_digits 16 ds then Some (digits_value 16 ds)
          else None
      | _ \<Rightarrow> None)"

definition parse_exponent :: "string \<Rightarrow> int option" where
  "parse_exponent s =
     (case s of
        [] \<Rightarrow> Some 0
      | c # t \<Rightarrow>
          if c = CHR ''e'' \<or> c = CHR ''E'' then
            (case t of
               [] \<Rightarrow> None
             | d # u \<Rightarrow>
                 if d = CHR ''+'' then
                   (if all_digits 10 u then Some (int (digits_value 10 u)) else None)
                 else if d = CHR ''-'' then
                   (if all_digits 10 u then Some (- int (digits_value 10 u)) else None)
                 else if all_digits 10 t then Some (int (digits_value 10 t))
                 else None)
          else None)"

definition scale10 :: "real \<Rightarrow> int \<Rightarrow> real" where
  "scale10 x e = (if 0 \<le> e then x * 10 ^ nat e else x / 10 ^ nat (- e))"

definition parse_unsigned :: "string \<Rightarrow> jsnum" where
  "parse_unsigned s =
     (if s = ''Infinity'' then PInf
      else
        let ip = takeWhile (is_digit_in 10) s;
            r = dropWhile (is_digit_in 10) s;
            dot = (case r of [] \<Rightarrow> False | c # _ \<Rightarrow> c = CHR ''.'');
            fp = (if dot then takeWhile (is_digit_in 10) (tl r) else []);
            r' = (if dot then dropWhile (is_digit_in 10) (tl r) else r)
        in if ip = [] \<and> fp = [] then NaN
           else case parse_exponent r' of
                  None \<Rightarrow> NaN
                | Some e \<Rightarrow>
                    Fin (scale10 (real (digits_value 10 ip)
                                  + real (digits_value 10 fp) / 10 ^ length fp) e))"

definition StringToNumber :: "string \<Rightarrow> jsnum" where
  "StringToNumber s =
     (let t = trim s in
      if t = [] then Fin 0
      else case nondecimal t of
             Some n \<Rightarrow> Fin (real n)
           | None \<Rightarrow>
               (case t of
                  [] \<Rightarrow> Fin 0
                | c # u \<Rightarrow>
                    if c = CHR ''+'' then parse_unsigned u
                    else if c = CHR ''-'' then js_neg (parse_unsigned u)
                    else parse_unsigned t))"

text \<open>
  \<^verbatim>\<open>Number(v)\<close> on a value of the decoded tree. An object converts through the string
  \<^verbatim>\<open>[object Object]\<close> and is NaN. An array converts through the string that joins its
  elements with commas: the empty array is the empty string, hence 0; an array of two or
  more elements contains a comma, hence is NaN; a one-element array converts as the string of
  its element, where \<^verbatim>\<open>undefined\<close> and \<^verbatim>\<open>null\<close> print as the empty string and a number
  prints as a string that reads back as itself.
\<close>

fun Number :: "jsval \<Rightarrow> jsnum" where
  "Number Undefined = NaN"
| "Number Null = Fin 0"
| "Number (Bool b) = Fin (if b then 1 else 0)"
| "Number (Num n) = n"
| "Number (Str s) = StringToNumber s"
| "Number (Obj kvs) = NaN"
| "Number (Arr []) = Fin 0"
| "Number (Arr [x]) =
     (case x of
        Undefined \<Rightarrow> Fin 0
      | Null \<Rightarrow> Fin 0
      | Bool b \<Rightarrow> NaN
      | Num n \<Rightarrow> n
      | Str s \<Rightarrow> StringToNumber s
      | Arr ys \<Rightarrow> Number (Arr ys)
      | Obj kvs \<Rightarrow> NaN)"
| "Number (Arr (x # y # zs)) = NaN"

subsection \<open>Property access, truthiness and \<^verbatim>\<open>??\<close>\<close>

text \<open>
  \<open>get v k\<close> is the optional-chaining read \<^verbatim>\<open>v?.k\<close>. On \<^verbatim>\<open>undefined\<close> and \<^verbatim>\<open>null\<close> it
  is \<^verbatim>\<open>undefined\<close>; on an object it is the value bound to the key, or \<^verbatim>\<open>undefined\<close>. The
  keys the parser reads (\<^verbatim>\<open>gpx\<close>, \<^verbatim>\<open>metadata\<close>, \<^verbatim>\<open>name\<close>, \<^verbatim>\<open>trk\<close>, \<^verbatim>\<open>trkseg\<close>, \<^verbatim>\<open>trkpt\<close>,
  \<^verbatim>\<open>rte\<close>, \<^verbatim>\<open>rtept\<close>, \<^verbatim>\<open>lat\<close>, \<^verbatim>\<open>lon\<close>) are no property of a string, number, boolean or
  array, so the read is \<^verbatim>\<open>undefined\<close> there.
\<close>

fun get :: "jsval \<Rightarrow> string \<Rightarrow> jsval" where
  "get (Obj kvs) k = (case map_of kvs k of Some v \<Rightarrow> v | None \<Rightarrow> Undefined)"
| "get Undefined k = Undefined"
| "get Null k = Undefined"
| "get (Bool b) k = Undefined"
| "get (Num n) k = Undefined"
| "get (Str s) k = Undefined"
| "get (Arr xs) k = Undefined"

text \<open>\<open>falsy v\<close> is \<^verbatim>\<open>!v\<close>.\<close>

fun falsy :: "jsval \<Rightarrow> bool" where
  "falsy Undefined = True"
| "falsy Null = True"
| "falsy (Bool b) = (\<not> b)"
| "falsy (Num n) = (n = NaN \<or> n = Fin 0)"
| "falsy (Str s) = (s = [])"
| "falsy (Arr xs) = False"
| "falsy (Obj kvs) = False"

text \<open>\<open>nullish a b\<close> is \<^verbatim>\<open>a ?? b\<close>.\<close>

definition nullish :: "jsval \<Rightarrow> jsval \<Rightarrow> jsval" where
  "nullish a b = (if a = Undefined \<or> a = Null then b else a)"

section \<open>The route parser (\<^verbatim>\<open>src/src/gpx.ts\<close>)\<close>

text \<open>
  A \<open>LatLng\<close> holds two finite numbers: the parser builds one only after both
  \<^verbatim>\<open>Number.isFinite\<close> tests have passed.
\<close>

record LatLng =
  latitude :: real
  longitude :: real

record ParsedGpx =
  name :: jsval
  points :: "LatLng list"

definition asArray :: "jsval \<Rightarrow> jsval list" where
  "asArray v = (if falsy v then [] else case v of Arr xs \<Rightarrow> xs | _ \<Rightarrow> [v])"

text \<open>\<open>first xs\<close> is \<^verbatim>\<open>xs[0]\<close>, which is \<^verbatim>\<open>undefined\<close> on the empty array.\<close>

definition first :: "jsval list \<Rightarrow> jsval" where
  "first xs = (case xs of [] \<Rightarrow> Undefined | x # _ \<Rightarrow> x)"

text \<open>The callback of \<^verbatim>\<open>map\<close>: \<open>None\<close> is its \<^verbatim>\<open>null\<close>.\<close>

definition toLatLng :: "jsval \<Rightarrow> LatLng option" where
  "toLatLng p =
     (let lat = Number (get p ''lat'');
          lon = Number (get p ''lon'')
      in case (lat, lon) of
           (Fin a, Fin b) \<Rightarrow> Some \<lparr>latitude = a, longitude = b\<rparr>
         | _ \<Rightarrow> None)"

text \<open>\<^verbatim>\<open>pts.map(...).filter(Boolean)\<close>: map, then keep what is not \<^verbatim>\<open>null\<close>.\<close>

definition pointsFrom :: "jsval list \<Rightarrow> LatLng list" where
  "pointsFrom pts = map the (filter (\<lambda>r. r \<noteq> None) (map toLatLng pts))"

definition trkpts :: "jsval \<Rightarrow> jsval list" where
  "trkpts gpx =
     (let trk = first (asArray (get gpx ''trk''));
          seg = first (asArray (get trk ''trkseg''))
      in asArray (get seg ''trkpt''))"

definition rtepts :: "jsval \<Rightarrow> jsval list" where
  "rtepts gpx =
     (let rte = first (asArray (get gpx ''rte''))
      in asArray (get rte ''rtept''))"

text \<open>
  \<open>parseGpxDoc\<close> is the body of \<^verbatim>\<open>parseGpxXml\<close> from the decoded document on (lines 26 to
  58); \<open>parseGpxXml\<close> runs the decoder first. The decoder is a collaborator and a parameter:
  it returns the tree or raises. What a collaborator raises is modelled by the
  \<^verbatim>\<open>message\<close> of the thrown value, when it has one.
\<close>

type_synonym js_error = "string option"

definition parseGpxDoc :: "jsval \<Rightarrow> ParsedGpx" where
  "parseGpxDoc doc =
     (let gpx = get doc ''gpx'';
          name = nullish (nullish (get (get gpx ''metadata'') ''name'')
                                  (get (get gpx ''trk'') ''name''))
                         (get (get gpx ''rte'') ''name'');
          pointsFromTrk = pointsFrom (trkpts gpx)
      in if pointsFromTrk \<noteq> [] then \<lparr>name = name, points = pointsFromTrk\<rparr>
         else
           let pointsFromRte = pointsFrom (rtepts gpx)
           in \<lparr>name = name, points = pointsFromRte\<rparr>)"

definition parseGpxXml :: "(string \<Rightarrow> js_error + jsval) \<Rightarrow> string \<Rightarrow> js_error + ParsedGpx" where
  "parseGpxXml parse xml =
     (case parse xml of
        Inl e \<Rightarrow> Inl e
      | Inr doc \<Rightarrow> Inr (parseGpxDoc doc))"

text \<open>
  \<open>boundingRegion\<close>: the loop over the points is \<open>boundsLoop\<close>, which carries
  \<^verbatim>\<open>(minLat, maxLat, minLon, maxLon)\<close>; \<^verbatim>\<open>Math.min\<close> and \<^verbatim>\<open>Math.max\<close> on finite
  numbers are \<open>min\<close> and \<open>max\<close>.
\<close>

record Region = LatLng +
  latitudeDelta :: real
  longitudeDelta :: real

fun boundsLoop :: "LatLng list \<Rightarrow> real \<times> real \<times> real \<times> real \<Rightarrow> real \<times> real \<times> real \<times> real" where
  "boundsLoop [] acc = acc"
| "boundsLoop (p # ps) (minLat, maxLat, minLon, maxLon) =
     boundsLoop ps (min minLat (latitude p), max maxLat (latitude p),
                    min minLon (longitude p), max maxLon (longitude p))"

definition boundingRegion :: "LatLng list \<Rightarrow> Region option" where
  "boundingRegion pts =
     (case pts of
        [] \<Rightarrow> None
      | p0 # _ \<Rightarrow>
          (case boundsLoop pts (latitude p0, latitude p0, longitude p0, longitude p0) of
             (minLat, maxLat, minLon, maxLon) \<Rightarrow>
               Some \<lparr>latitude = (minLat + maxLat) / 2,
                     longitude = (minLon + maxLon) / 2,
                     latitudeDelta = max 0.01 ((maxLat - minLat) * 1.4),
                     longitudeDelta = max 0.01 ((maxLon - minLon) * 1.4)\<rparr>))"

section \<open>The speed readout (\<^verbatim>\<open>src/App.tsx\<close>, lines 13 to 22)\<close>

text \<open>Multiplication of numbers, with the special values of IEEE arithmetic.\<close>

fun js_mul :: "jsnum \<Rightarrow> jsnum \<Rightarrow> jsnum" where
  "js_mul (Fin a) (Fin b) = Fin (a * b)"
| "js_mul NaN y = NaN"
| "js_mul x NaN = NaN"
| "js_mul (Fin a) PInf = (if a = 0 then NaN else if 0 < a then PInf else NInf)"
| "js_mul (Fin a) NInf = (if a = 0 then NaN else if 0 < a then NInf else PInf)"
| "js_mul PInf (Fin b) = (if b = 0 then NaN else if 0 < b then PInf else NInf)"
| "js_mul NInf (Fin b) = (if b = 0 then NaN else if 0 < b then NInf else PInf)"
| "js_mul PInf PInf = PInf"
| "js_mul PInf NInf = NInf"
| "js_mul NInf PInf = NInf"
| "js_mul NInf NInf = PInf"

text \<open>\<open>js_lt v w\<close> is \<^verbatim>\<open>v < w\<close>, false as soon as one side is NaN.\<close>

fun js_lt :: "jsnum \<Rightarrow> jsnum \<Rightarrow> bool" where
  "js_lt (Fin a) (Fin b) = (a < b)"
| "js_lt NaN y = False"
| "js_lt x NaN = False"
| "js_lt NInf NInf = False"
| "js_lt NInf y = True"
| "js_lt x PInf = (x \<noteq> PInf)"
| "js_lt x NInf = False"
| "js_lt PInf y = False"

text \<open>
  \<^verbatim>\<open>Math.round\<close> on a finite number is the nearest integer, a tie going up.
  \<open>String_round v\<close> is \<^verbatim>\<open>String(Math.round(v))\<close>: the decimal digits of the integer
  (JavaScript prints so below \<open>10\<^sup>2\<^sup>1\<close>), and the names of the special values, which
  \<^verbatim>\<open>Math.round\<close> returns unchanged.
\<close>

definition Math_round :: "real \<Rightarrow> int" where
  "Math_round x = \<lfloor>x + 1 / 2\<rfloor>"

fun show_nat :: "nat \<Rightarrow> string" where
  "show_nat n =
     (if n < 10 then [char_of (48 + n)]
      else show_nat (n div 10) @ [char_of (48 + n mod 10)])"

declare show_nat.simps [simp del]

definition show_int :: "int \<Rightarrow> string" where
  "show_int i = (if i < 0 then CHR ''-'' # show_nat (nat (- i)) else show_nat (nat i))"

fun String_round :: "jsnum \<Rightarrow> string" where
  "String_round (Fin x) = show_int (Math_round x)"
| "String_round NaN = ''NaN''"
| "String_round PInf = ''Infinity''"
| "String_round NInf = ''-Infinity''"

text \<open>The marker is the em dash (U+2014), here in its UTF-8 bytes.\<close>

definition unknown_marker :: string where
  "unknown_marker = [CHR 0xE2, CHR 0x80, CHR 0x94]"

definition kmh :: "jsnum \<Rightarrow> jsnum" where
  "kmh ms = js_mul ms (Fin 3.6)"

text \<open>The argument of \<open>fmtSpeed\<close> is a number, or \<open>None\<close> for \<^verbatim>\<open>null\<close> and \<^verbatim>\<open>undefined\<close>.\<close>

definition fmtSpeed :: "jsnum option \<Rightarrow> string" where
  "fmtSpeed ms =
     (case ms of
        None \<Rightarrow> unknown_marker
      | Some m \<Rightarrow>
          if \<not> isFinite m then unknown_marker
          else
            let v = kmh m
            in if \<not> isFinite v \<or> js_lt v (Fin 0) then ''0''
               else String_round v)"

section \<open>The navigation controller (\<^verbatim>\<open>src/App.tsx\<close>, \<^verbatim>\<open>NavigatorApp\<close>)\<close>

text \<open>
  The component's state is the record \<open>AppState\<close>: one field for each \<^verbatim>\<open>useState\<close> cell,
  and \<open>subscription\<close> for the handle \<^verbatim>\<open>sub\<close> of the tracking effect (\<open>True\<close> while a
  live-position subscription is open). A handler is a function from the state of the render
  in which it was created to the state after its \<^verbatim>\<open>set...\<close> calls. Each handler and
  each effect runs to its end before the next event is taken: the interleaving of two
  pending asynchronous handlers is not part of the model, nor are the camera animations,
  which write nothing back into the state.
\<close>

datatype NavMode = browse | drive

datatype Perm = unknown | granted | denied

text \<open>The \<^verbatim>\<open>status\<close> of a permission response of the location library.\<close>

datatype PermissionStatus = GRANTED | DENIED | UNDETERMINED

record LocationObject = LatLng +
  heading :: "jsnum option"
  speed :: "jsnum option"

record AppState =
  routeName :: jsval
  route :: "LatLng list"
  mode :: NavMode
  locPerm :: Perm
  location :: "LocationObject option"
  speedMs :: "jsnum option"
  gpsError :: "string option"
  servicesEnabled :: "bool option"
  loadingGpx :: bool
  gpxError :: "string option"
  subscription :: bool

definition initialState :: AppState where
  "initialState =
     \<lparr>routeName = Undefined, route = [], mode = browse, locPerm = unknown, location = None,
      speedMs = None, gpsError = None, servicesEnabled = None, loadingGpx = False,
      gpxError = None, subscription = False\<rparr>"

text \<open>What the document picker hands back: it raises, the user cancels, or a selection,
  given by the \<^verbatim>\<open>uri\<close> of its first asset (\<open>None\<close> when there is no asset or no \<^verbatim>\<open>uri\<close>;
  an empty \<^verbatim>\<open>uri\<close> fails the test \<^verbatim>\<open>!asset?.uri\<close> too).\<close>

datatype Picked = PickerThrows js_error | Canceled | Selected "string option"

text \<open>\<^verbatim>\<open>watchPositionAsync\<close> resolves to a subscription or raises.\<close>

datatype WatchOutcome = Subscribed | WatchThrows js_error

text \<open>
  The collaborators' answers at the moment of an event: whether location services are on,
  the permission the system reports, the outcome of a permission request, the outcome of
  opening the position stream, the file reader and the XML decoder.
\<close>

record Env =
  services :: bool
  foreground :: PermissionStatus
  request :: PermissionStatus
  watch :: WatchOutcome
  readFile :: "string \<Rightarrow> js_error + string"
  xmlParse :: "string \<Rightarrow> js_error + jsval"

text \<open>\<open>message_or e d\<close> is \<^verbatim>\<open>e?.message ?? d\<close>.\<close>

definition message_or :: "js_error \<Rightarrow> string \<Rightarrow> string" where
  "message_or e d = (case e of Some m \<Rightarrow> m | None \<Rightarrow> d)"

text \<open>\<open>no_text s\<close> is \<^verbatim>\<open>!s\<close> on a string or \<^verbatim>\<open>null\<close>.\<close>

definition no_text :: "string option \<Rightarrow> bool" where
  "no_text s = (case s of None \<Rightarrow> True | Some m \<Rightarrow> m = [])"

definition region :: "AppState \<Rightarrow> Region option" where
  "region st = boundingRegion (route st)"

definition services_off_message :: string where
  "services_off_message =
     ''Location services are OFF. Enable GPS/location services and try again.''"

definition requestLocationPermission :: "Env \<Rightarrow> AppState \<Rightarrow> bool \<times> AppState" where
  "requestLocationPermission env st =
     (let enabled = services env;
          st1 = st\<lparr>servicesEnabled := Some enabled\<rparr>;
          st2 = (if \<not> enabled then st1\<lparr>gpsError := Some services_off_message\<rparr> else st1);
          res = request env;
          st3 = st2\<lparr>locPerm := (if res = GRANTED then granted else denied)\<rparr>
      in (res = GRANTED \<and> enabled, st3))"

text \<open>
  \<open>pickGpx\<close>: the body of the \<^verbatim>\<open>try\<close> yields the state and what was thrown, if anything;
  then come \<^verbatim>\<open>catch\<close> and \<^verbatim>\<open>finally\<close>.
\<close>

definition pickGpx :: "Env \<Rightarrow> Picked \<Rightarrow> AppState \<Rightarrow> AppState" where
  "pickGpx env picked st =
     (let st1 = st\<lparr>gpxError := None, loadingGpx := True\<rparr>;
          (st2, thrown) =
            (case picked of
               PickerThrows e \<Rightarrow> (st1, Some e)
             | Canceled \<Rightarrow> (st1, None)
             | Selected None \<Rightarrow> (st1, Some (Some ''No file URI returned''))
             | Selected (Some uri) \<Rightarrow>
                 if uri = [] then (st1, Some (Some ''No file URI returned''))
                 else
                   (case readFile env uri of
                      Inl e \<Rightarrow> (st1, Some e)
                    | Inr xml \<Rightarrow>
                        (case parseGpxXml (xmlParse env) xml of
                           Inl e \<Rightarrow> (st1, Some e)
                         | Inr parsed \<Rightarrow>
                             if points parsed = [] then
                               (st1, Some (Some ''No route points found in GPX''))
                             else
                               (st1\<lparr>routeName := name parsed, route := points parsed,
                                    mode := browse\<rparr>, None))));
          st3 = (case thrown of
                   None \<Rightarrow> st2
                 | Some e \<Rightarrow> st2\<lparr>gpxError := Some (message_or e ''Failed to load GPX'')\<rparr>)
      in st3\<lparr>loadingGpx := False\<rparr>)"

definition stopNavigation :: "AppState \<Rightarrow> AppState" where
  "stopNavigation st = st\<lparr>mode := browse\<rparr>"

text \<open>
  \<open>startNavigation\<close>. The test \<^verbatim>\<open>!gpsError\<close> of line 113 reads the constant \<^verbatim>\<open>gpsError\<close> of
  the render in which the handler was created, that is \<open>gpsError st\<close>: the calls of
  \<^verbatim>\<open>setGpsError\<close> made during the attempt change the next state, not that constant.
\<close>

definition startNavigation :: "Env \<Rightarrow> AppState \<Rightarrow> AppState" where
  "startNavigation env st =
     (let st1 = st\<lparr>gpsError := None\<rparr>;
          (ok, st2) = requestLocationPermission env st1
      in if \<not> ok then
           (if no_text (gpsError st) then st2\<lparr>gpsError := Some ''Location permission denied''\<rparr>
            else st2)
         else st2\<lparr>mode := drive\<rparr>)"

text \<open>
  The tracking effect, with dependency \<^verbatim>\<open>[mode]\<close>: its body, and its cleanup
  \<^verbatim>\<open>sub?.remove()\<close>. \<open>commit\<close> is what React does after a handler: when \<^verbatim>\<open>mode\<close> differs
  from the previous render, the cleanup of the old effect runs, then the new effect.
\<close>

definition trackingEffect :: "Env \<Rightarrow> AppState \<Rightarrow> AppState" where
  "trackingEffect env st =
     (if mode st \<noteq> drive then st
      else
        let (hasPerm, st1) =
              (if locPerm st = granted then (True, st) else requestLocationPermission env st)
        in if \<not> hasPerm then st1
           else
             (case watch env of
                Subscribed \<Rightarrow> st1\<lparr>subscription := True\<rparr>
              | WatchThrows e \<Rightarrow> st1\<lparr>gpsError := Some (message_or e ''GPS error'')\<rparr>))"

definition trackingCleanup :: "AppState \<Rightarrow> AppState" where
  "trackingCleanup st = st\<lparr>subscription := False\<rparr>"

definition commit :: "Env \<Rightarrow> AppState \<Rightarrow> AppState \<Rightarrow> AppState" where
  "commit env old new =
     (if mode new = mode old then new else trackingEffect env (trackingCleanup new))"

text \<open>The callback of the subscription, and the effect that runs once at mount.\<close>

definition onPosition :: "LocationObject \<Rightarrow> AppState \<Rightarrow> AppState" where
  "onPosition pos st = st\<lparr>location := Some pos, speedMs := speed pos\<rparr>"

definition initialPermissionState :: "Env \<Rightarrow> AppState \<Rightarrow> AppState" where
  "initialPermissionState env st =
     st\<lparr>locPerm := (if foreground env = GRANTED then granted
                     else if foreground env = DENIED then denied else unknown),
        servicesEnabled := Some (services env)\<rparr>"

text \<open>
  The events of the controller. A button can be pressed only while it is rendered:
  Start when a route is loaded and the mode is not \<open>drive\<close>, Stop in \<open>drive\<close>, Load while no
  load is running. A position arrives only on an open subscription.
\<close>

datatype Event =
    PressLoad Picked
  | PressStart
  | PressStop
  | PositionUpdate LocationObject
  | PermissionProbe

definition step :: "Env \<Rightarrow> Event \<Rightarrow> AppState \<Rightarrow> AppState" where
  "step env ev st =
     (case ev of
        PressLoad picked \<Rightarrow>
          if loadingGpx st then st else commit env st (pickGpx env picked st)
      | PressStart \<Rightarrow>
          if route st \<noteq> [] \<and> mode st \<noteq> drive then commit env st (startNavigation env st)
          else st
      | PressStop \<Rightarrow>
          if mode st = drive then commit env st (stopNavigation st) else st
      | PositionUpdate pos \<Rightarrow>
          if subscription st then onPosition pos st else st
      | PermissionProbe \<Rightarrow> initialPermissionState env st)"

text \<open>A run of events, each with the collaborators' answers at its moment.\<close>

fun run :: "(Env \<times> Event) list \<Rightarrow> AppState \<Rightarrow> AppState" where
  "run [] st = st"
| "run ((env, ev) # rest) st = run rest (step env ev st)"

definition speedText :: "AppState \<Rightarrow> string" where
  "speedText st = fmtSpeed (speedMs st)"

section \<open>The specification's vocabulary\<close>

text \<open>
  The per-point rule in the specification's words: a point is valid when both coordinates
  coerce to finite numbers, and a valid point contributes these two numbers.
\<close>

definition valid_point :: "jsval \<Rightarrow> bool" where
  "valid_point p \<longleftrightarrow> isFinite (Number (get p ''lat'')) \<and> isFinite (Number (get p ''lon''))"

fun fin_value :: "jsnum \<Rightarrow> real" where
  "fin_value (Fin x) = x"
| "fin_value NaN = 0"
| "fin_value PInf = 0"
| "fin_value NInf = 0"

definition coords :: "jsval \<Rightarrow> LatLng" where
  "coords p = \<lparr>latitude = fin_value (Number (get p ''lat'')),
               longitude = fin_value (Number (get p ''lon''))\<rparr>"

text \<open>A name candidate is present when it is neither \<^verbatim>\<open>undefined\<close> nor \<^verbatim>\<open>null\<close>.\<close>

definition present :: "jsval \<Rightarrow> bool" where
  "present v \<longleftrightarrow> v \<noteq> Undefined \<and> v \<noteq> Null"

subsection \<open>Sample documents\<close>

definition sample_point :: "string \<Rightarrow> string \<Rightarrow> jsval" where
  "sample_point lat lon = Obj [(''lat'', Str lat), (''lon'', Str lon)]"

definition sample_track :: jsval where
  "sample_track =
     Obj [(''name'', Str ''Morning ride''),
          (''trkseg'', Obj [(''trkpt'', Arr [sample_point ''47.5'' ''8.25'',
                                              sample_point ''north'' ''8.5'',
                                              sample_point [] ''9'',
                                              sample_point ''48'' ''Infinity''])])]"

definition sample_route :: "string \<Rightarrow> jsval" where
  "sample_route lat =
     Obj [(''name'', Str ''Plan''),
          (''rtept'', Arr [sample_point lat ''2'', sample_point ''3'' ''4'',
                           sample_point ''5'' []])]"

text \<open>A track and a route; the same with another route; a route only, under an empty
  metadata name; no track and no route.\<close>

definition sample_doc :: jsval where
  "sample_doc = Obj [(''gpx'', Obj [(''trk'', sample_track), (''rte'', sample_route ''1'')])]"


definition sample_doc_route_only :: jsval where
  "sample_doc_route_only =
     Obj [(''gpx'', Obj [(''metadata'', Obj [(''name'', Str [])]),
                         (''rte'', sample_route ''x'')])]"

definition sample_doc_empty :: jsval where
  "sample_doc_empty = Obj [(''gpx'', Obj [(''metadata'', Str [])])]"

subsection \<open>Sample collaborators\<close>

text \<open>A decoder that knows three documents by name and rejects everything else, a reader
  that yields the name of the file as its text, and an environment in which location
  services are off.\<close>

definition sample_decoder :: "string \<Rightarrow> js_error + jsval" where
  "sample_decoder xml =
     (if xml = ''sample'' then Inr sample_doc
      else if xml = ''route only'' then Inr sample_doc_route_only
      else if xml = ''empty'' then Inr sample_doc_empty
      else Inl (Some ''Unexpected end of input''))"

definition sample_env :: "bool \<Rightarrow> PermissionStatus \<Rightarrow> Env" where
  "sample_env enabled res =
     \<lparr>services = enabled, foreground = UNDETERMINED, request = res, watch = Subscribed,
      readFile = Inr, xmlParse = sample_decoder\<rparr>"

text \<open>A state in browse mode with a route of two points loaded.\<close>

definition sample_state :: AppState where
  "sample_state =
     initialState\<lparr>routeName := Str ''Plan'',
                  route := [\<lparr>latitude = 3, longitude = 4\<rparr>, \<lparr>latitude = 5, longitude = 6\<rparr>]\<rparr>"

section \<open>Properties of the geometry\<close>









section \<open>Properties of the parser\<close>

lemma StringToNumber_empty: "StringToNumber [] = Fin 0"
  by (simp add: StringToNumber_def trim_def)

lemma isFinite_iff: "isFinite n \<longleftrightarrow> (\<exists>x. n = Fin x)"
  by (cases n) simp_all

lemma not_isFinite_iff: "\<not> isFinite n \<longleftrightarrow> n = NaN \<or> n = PInf \<or> n = NInf"
  by (cases n) simp_all

lemma toLatLng_eq: "toLatLng p = (if valid_point p then Some (coords p) else None)"
  by (cases "Number (get p ''lat'')"; cases "Number (get p ''lon'')")
     (simp_all add: toLatLng_def valid_point_def coords_def)

lemma pointsFrom_eq: "pointsFrom pts = map coords (filter valid_point pts)"
  by (induction pts) (simp_all add: pointsFrom_def toLatLng_eq)

lemma points_parseGpxDoc:
  "points (parseGpxDoc doc) =
     (if pointsFrom (trkpts (get doc ''gpx'')) \<noteq> [] then pointsFrom (trkpts (get doc ''gpx''))
      else pointsFrom (rtepts (get doc ''gpx'')))"
  by (simp add: parseGpxDoc_def Let_def)

lemma name_parseGpxDoc:
  "name (parseGpxDoc doc) =
     nullish (nullish (get (get (get doc ''gpx'') ''metadata'') ''name'')
                      (get (get (get doc ''gpx'') ''trk'') ''name''))
             (get (get (get doc ''gpx'') ''rte'') ''name'')"
  by (simp add: parseGpxDoc_def Let_def)






text \<open>
  C4, as the code has it. The name is the first of the three candidates (metadata name,
  name of \<^verbatim>\<open>gpx.trk\<close>, name of \<^verbatim>\<open>gpx.rte\<close>) that is present, that is neither
  \<^verbatim>\<open>undefined\<close> nor \<^verbatim>\<open>null\<close>; an empty string is present. When none of the three is
  there, the name is \<^verbatim>\<open>undefined\<close>.
\<close>

theorem name_priority:
  "(present (get (get (get doc ''gpx'') ''metadata'') ''name'') \<longrightarrow>
      name (parseGpxDoc doc) = get (get (get doc ''gpx'') ''metadata'') ''name'')
   \<and> (\<not> present (get (get (get doc ''gpx'') ''metadata'') ''name'')
      \<and> present (get (get (get doc ''gpx'') ''trk'') ''name'') \<longrightarrow>
      name (parseGpxDoc doc) = get (get (get doc ''gpx'') ''trk'') ''name'')
   \<and> (\<not> present (get (get (get doc ''gpx'') ''metadata'') ''name'')
      \<and> \<not> present (get (get (get doc ''gpx'') ''trk'') ''name'') \<longrightarrow>
      name (parseGpxDoc doc) = get (get (get doc ''gpx'') ''rte'') ''name'')
   \<and> (get (get (get doc ''gpx'') ''metadata'') ''name'' = Undefined
      \<and> get (get (get doc ''gpx'') ''trk'') ''name'' = Undefined
      \<and> get (get (get doc ''gpx'') ''rte'') ''name'' = Undefined \<longrightarrow>
      name (parseGpxDoc doc) = Undefined)
   \<and> present (Str [])"
  by (auto simp add: name_parseGpxDoc nullish_def present_def)

text \<open>The sample document has no metadata: its name is the track's. The route-only sample
  has a metadata name, which is returned. The empty sample has no name.\<close>

theorem name_priority_witness:
  "\<not> present (get (get (get sample_doc ''gpx'') ''metadata'') ''name'')
   \<and> present (get (get (get sample_doc ''gpx'') ''trk'') ''name'')
   \<and> name (parseGpxDoc sample_doc) = Str ''Morning ride''
   \<and> present (get (get (get sample_doc_route_only ''gpx'') ''metadata'') ''name'')
   \<and> name (parseGpxDoc sample_doc_route_only)
       = get (get (get sample_doc_route_only ''gpx'') ''metadata'') ''name''
   \<and> get (get (get sample_doc_empty ''gpx'') ''metadata'') ''name'' = Undefined
   \<and> get (get (get sample_doc_empty ''gpx'') ''trk'') ''name'' = Undefined
   \<and> get (get (get sample_doc_empty ''gpx'') ''rte'') ''name'' = Undefined
   \<and> name (parseGpxDoc sample_doc_empty) = Undefined"
proof -
  have m: "get (get (get sample_doc ''gpx'') ''metadata'') ''name'' = Undefined"
    by (simp add: sample_doc_def)
  have t: "get (get (get sample_doc ''gpx'') ''trk'') ''name'' = Str ''Morning ride''"
    by (simp add: sample_doc_def sample_track_def)
  have r: "get (get (get sample_doc_route_only ''gpx'') ''metadata'') ''name'' = Str []"
    by (simp add: sample_doc_route_only_def)
  have e: "get (get (get sample_doc_empty ''gpx'') ''metadata'') ''name'' = Undefined"
    "get (get (get sample_doc_empty ''gpx'') ''trk'') ''name'' = Undefined"
    "get (get (get sample_doc_empty ''gpx'') ''rte'') ''name'' = Undefined"
    by (simp_all add: sample_doc_empty_def)
  from name_priority [of sample_doc] name_priority [of sample_doc_route_only]
    name_priority [of sample_doc_empty] m t r e
  show ?thesis
    by (simp add: present_def)
qed

text \<open>
  C4 as stated, with \<open>first non-empty\<close>, fails: in the route-only sample the metadata name
  is the empty string and the route is named; the name returned is the empty string.
\<close>

theorem name_nonempty_counterexample:
  "get (get (get sample_doc_route_only ''gpx'') ''metadata'') ''name'' = Str []
   \<and> get (get (get sample_doc_route_only ''gpx'') ''rte'') ''name'' = Str ''Plan''
   \<and> name (parseGpxDoc sample_doc_route_only) = Str []
   \<and> name (parseGpxDoc sample_doc_route_only) \<noteq> Str ''Plan''"
  by (simp add: name_parseGpxDoc nullish_def sample_doc_route_only_def sample_route_def)




lemma pickGpx_no_points:
  assumes "uri \<noteq> []" "readFile env uri = Inr xml" "xmlParse env xml = Inr doc"
    "points (parseGpxDoc doc) = []"
  shows "pickGpx env (Selected (Some uri)) st =
     st\<lparr>gpxError := Some ''No route points found in GPX'', loadingGpx := False\<rparr>"
  using assms by (simp add: pickGpx_def parseGpxXml_def message_or_def)



text \<open>
  C10. A point whose \<^verbatim>\<open>lat\<close> (or \<^verbatim>\<open>lon\<close>) is the empty string is kept with that
  coordinate 0, as soon as the other coordinate is finite: \<^verbatim>\<open>Number('')\<close> is 0. A point
  is dropped exactly when one of its coordinates coerces to NaN or to an infinity, and a
  point that is kept is among the points returned, in the track tier as in the route tier.
\<close>

theorem empty_coordinate_is_zero:
  "Number (Str []) = Fin 0
   \<and> (get p ''lat'' = Str [] \<and> Number (get p ''lon'') = Fin b
        \<longrightarrow> toLatLng p = Some \<lparr>latitude = 0, longitude = b\<rparr>)
   \<and> (get p ''lon'' = Str [] \<and> Number (get p ''lat'') = Fin a
        \<longrightarrow> toLatLng p = Some \<lparr>latitude = a, longitude = 0\<rparr>)
   \<and> (toLatLng p = None \<longleftrightarrow>
        Number (get p ''lat'') \<in> {NaN, PInf, NInf} \<or> Number (get p ''lon'') \<in> {NaN, PInf, NInf})
   \<and> (p \<in> set (trkpts (get doc ''gpx'')) \<and> toLatLng p = Some q
        \<longrightarrow> q \<in> set (points (parseGpxDoc doc)))
   \<and> (pointsFrom (trkpts (get doc ''gpx'')) = [] \<and> p \<in> set (rtepts (get doc ''gpx''))
        \<and> toLatLng p = Some q
        \<longrightarrow> q \<in> set (points (parseGpxDoc doc)))"
proof -
  have z: "Number (Str []) = Fin 0" by (simp add: StringToNumber_empty)
  have lat: "toLatLng p = Some \<lparr>latitude = 0, longitude = b\<rparr>"
    if "get p ''lat'' = Str []" "Number (get p ''lon'') = Fin b" for p b
    using that by (simp add: toLatLng_def StringToNumber_empty)
  have lon: "toLatLng p = Some \<lparr>latitude = a, longitude = 0\<rparr>"
    if "get p ''lon'' = Str []" "Number (get p ''lat'') = Fin a"
    using that by (simp add: toLatLng_def StringToNumber_empty)
  have dropped: "toLatLng p = None \<longleftrightarrow>
        Number (get p ''lat'') \<in> {NaN, PInf, NInf} \<or> Number (get p ''lon'') \<in> {NaN, PInf, NInf}"
    by (auto simp add: toLatLng_eq valid_point_def not_isFinite_iff)
  have kept: "q \<in> set (pointsFrom pts)" if "p \<in> set pts" "toLatLng p = Some q" for pts
  proof -
    from that(2) have "valid_point p" "coords p = q"
      by (simp_all add: toLatLng_eq split: if_splits)
    with that(1) show ?thesis
      unfolding pointsFrom_eq by force
  qed
  have trk: "q \<in> set (points (parseGpxDoc doc))"
    if "p \<in> set (trkpts (get doc ''gpx''))" "toLatLng p = Some q"
  proof -
    from kept [OF that] have "q \<in> set (pointsFrom (trkpts (get doc ''gpx'')))" .
    then show ?thesis by (auto simp add: points_parseGpxDoc)
  qed
  have rte: "q \<in> set (points (parseGpxDoc doc))"
    if "pointsFrom (trkpts (get doc ''gpx'')) = []" "p \<in> set (rtepts (get doc ''gpx''))"
      "toLatLng p = Some q"
    using kept [OF that(2,3)] that(1) by (simp add: points_parseGpxDoc)
  show ?thesis using z lat lon dropped trk rte by blast
qed

text \<open>The third point of the sample track has an empty latitude and is kept at latitude 0;
  the third point of the sample route has an empty longitude and is kept at longitude 0.\<close>

theorem empty_coordinate_is_zero_witness:
  "sample_point [] ''9'' \<in> set (trkpts (get sample_doc ''gpx''))
   \<and> get (sample_point [] ''9'') ''lat'' = Str []
   \<and> Number (get (sample_point [] ''9'') ''lon'') = Fin 9
   \<and> toLatLng (sample_point [] ''9'') = Some \<lparr>latitude = 0, longitude = 9\<rparr>
   \<and> \<lparr>latitude = 0, longitude = 9\<rparr> \<in> set (points (parseGpxDoc sample_doc))
   \<and> sample_point ''5'' [] \<in> set (rtepts (get sample_doc_route_only ''gpx''))
   \<and> toLatLng (sample_point ''5'' []) = Some \<lparr>latitude = 5, longitude = 0\<rparr>
   \<and> \<lparr>latitude = 5, longitude = 0\<rparr> \<in> set (points (parseGpxDoc sample_doc_route_only))"
proof -
  have rm: "sample_point ''5'' [] \<in> set (rtepts (get sample_doc_route_only ''gpx''))"
    by (simp add: sample_doc_route_only_def sample_route_def rtepts_def asArray_def first_def)
  have rl: "get (sample_point ''5'' []) ''lon'' = Str []"
    by (simp add: sample_point_def)
  have rn: "Number (get (sample_point ''5'' []) ''lat'') = Fin 5"
    by code_simp
  have none: "pointsFrom (trkpts (get sample_doc_route_only ''gpx'')) = []"
    by code_simp
  have route: "toLatLng (sample_point ''5'' []) = Some \<lparr>latitude = 5, longitude = 0\<rparr>
      \<and> \<lparr>latitude = 5, longitude = 0\<rparr> \<in> set (points (parseGpxDoc sample_doc_route_only))"
    using empty_coordinate_is_zero [of "sample_point ''5'' []" 0 5 sample_doc_route_only
      "\<lparr>latitude = 5, longitude = 0\<rparr>"] rm rl rn none
    by simp
  have m: "sample_point [] ''9'' \<in> set (trkpts (get sample_doc ''gpx''))"
    by (simp add: sample_doc_def sample_track_def trkpts_def asArray_def first_def)
  have l: "get (sample_point [] ''9'') ''lat'' = Str []"
    by (simp add: sample_point_def)
  have n: "Number (get (sample_point [] ''9'') ''lon'') = Fin 9"
    by code_simp
  from empty_coordinate_is_zero [of "sample_point [] ''9''" 9 0 sample_doc
      "\<lparr>latitude = 0, longitude = 9\<rparr>"] m l n rm route
  show ?thesis by simp
qed

section \<open>Properties of the speed readout\<close>

lemma kmh_Fin: "kmh (Fin x) = Fin (x * 3.6)"
  by (simp add: kmh_def)

lemma kmh_isFinite: "isFinite (kmh m) \<longleftrightarrow> isFinite m"
  by (cases m) (simp_all add: kmh_def)


lemma Math_round_tie: "Math_round (real_of_int k + 1 / 2) = k + 1"
  unfolding Math_round_def by linarith







section \<open>Properties of the controller\<close>

subsection \<open>Loading a file\<close>

lemma pickGpx_cases:
  "pickGpx env picked st = st\<lparr>gpxError := gpxError (pickGpx env picked st), loadingGpx := False\<rparr>
   \<or> (\<exists>uri xml doc. picked = Selected (Some uri) \<and> uri \<noteq> [] \<and> readFile env uri = Inr xml
         \<and> xmlParse env xml = Inr doc \<and> points (parseGpxDoc doc) \<noteq> []
         \<and> pickGpx env picked st =
             st\<lparr>gpxError := None, routeName := name (parseGpxDoc doc),
                route := points (parseGpxDoc doc), mode := browse, loadingGpx := False\<rparr>)"
proof (cases picked)
  case (PickerThrows e)
  then show ?thesis by (simp add: pickGpx_def)
next
  case Canceled
  then show ?thesis by (simp add: pickGpx_def)
next
  case (Selected u)
  show ?thesis
  proof (cases u)
    case None
    with Selected show ?thesis by (simp add: pickGpx_def)
  next
    case (Some uri)
    show ?thesis
    proof (cases "uri = []")
      case True
      with Selected Some show ?thesis by (simp add: pickGpx_def)
    next
      case ne: False
      show ?thesis
      proof (cases "readFile env uri")
        case (Inl e)
        with Selected Some ne show ?thesis by (simp add: pickGpx_def)
      next
        case (Inr xml)
        show ?thesis
        proof (cases "xmlParse env xml")
          case (Inl e)
          with Selected Some ne Inr show ?thesis by (simp add: pickGpx_def parseGpxXml_def)
        next
          case doc: (Inr doc)
          show ?thesis
          proof (cases "points (parseGpxDoc doc) = []")
            case True
            with Selected Some ne Inr doc show ?thesis
              by (simp add: pickGpx_def parseGpxXml_def)
          next
            case False
            with Selected Some ne Inr doc show ?thesis
              by (simp add: pickGpx_def parseGpxXml_def)
          qed
        qed
      qed
    qed
  qed
qed

lemma pickGpx_error_keeps:
  assumes "gpxError (pickGpx env picked st) \<noteq> None"
  shows "pickGpx env picked st = st\<lparr>gpxError := gpxError (pickGpx env picked st), loadingGpx := False\<rparr>"
  using pickGpx_cases [of env picked st] assms by auto

lemma pickGpx_malformed:
  assumes "uri \<noteq> []" "readFile env uri = Inr xml" "xmlParse env xml = Inl e"
  shows "pickGpx env (Selected (Some uri)) st =
     st\<lparr>gpxError := Some (message_or e ''Failed to load GPX''), loadingGpx := False\<rparr>"
  using assms by (simp add: pickGpx_def parseGpxXml_def)

lemma pickGpx_loaded:
  assumes "uri \<noteq> []" "readFile env uri = Inr xml" "xmlParse env xml = Inr doc"
    "points (parseGpxDoc doc) \<noteq> []"
  shows "pickGpx env (Selected (Some uri)) st =
     st\<lparr>gpxError := None, routeName := name (parseGpxDoc doc),
        route := points (parseGpxDoc doc), mode := browse, loadingGpx := False\<rparr>"
  using assms by (simp add: pickGpx_def parseGpxXml_def)

text \<open>
  C8. A load that surfaces an error changes nothing but the error message (and the
  loading flag, which is off again): the route, its name, the region derived from it and
  the mode are those of before. This holds in particular when the decoder rejects the
  document and when the document has no usable point. A load that succeeds replaces the
  route and its name by the parsed ones. There is no third outcome.
\<close>

theorem failed_load_keeps_route:
  "(gpxError (pickGpx env picked st) \<noteq> None \<longrightarrow>
      pickGpx env picked st
        = st\<lparr>gpxError := gpxError (pickGpx env picked st), loadingGpx := False\<rparr>
      \<and> route (pickGpx env picked st) = route st
      \<and> routeName (pickGpx env picked st) = routeName st
      \<and> region (pickGpx env picked st) = region st
      \<and> mode (pickGpx env picked st) = mode st)
   \<and> (uri \<noteq> [] \<and> readFile env uri = Inr xml \<and> xmlParse env xml = Inl e \<longrightarrow>
      pickGpx env (Selected (Some uri)) st
        = st\<lparr>gpxError := Some (message_or e ''Failed to load GPX''), loadingGpx := False\<rparr>)
   \<and> (uri \<noteq> [] \<and> readFile env uri = Inr xml \<and> xmlParse env xml = Inr doc
        \<and> points (parseGpxDoc doc) = [] \<longrightarrow>
      pickGpx env (Selected (Some uri)) st
        = st\<lparr>gpxError := Some ''No route points found in GPX'', loadingGpx := False\<rparr>)
   \<and> (uri \<noteq> [] \<and> readFile env uri = Inr xml \<and> xmlParse env xml = Inr doc
        \<and> points (parseGpxDoc doc) \<noteq> [] \<longrightarrow>
      pickGpx env (Selected (Some uri)) st
        = st\<lparr>gpxError := None, routeName := name (parseGpxDoc doc),
             route := points (parseGpxDoc doc), mode := browse, loadingGpx := False\<rparr>)
   \<and> (route (pickGpx env picked st) = route st \<and> routeName (pickGpx env picked st) = routeName st
       \<or> (\<exists>d. route (pickGpx env picked st) = points (parseGpxDoc d)
              \<and> routeName (pickGpx env picked st) = name (parseGpxDoc d)
              \<and> gpxError (pickGpx env picked st) = None))"
proof -
  have keep: "pickGpx env picked st
        = st\<lparr>gpxError := gpxError (pickGpx env picked st), loadingGpx := False\<rparr>"
    if "gpxError (pickGpx env picked st) \<noteq> None"
    using that by (rule pickGpx_error_keeps)
  have fields: "route (pickGpx env picked st) = route st
      \<and> routeName (pickGpx env picked st) = routeName st
      \<and> region (pickGpx env picked st) = region st
      \<and> mode (pickGpx env picked st) = mode st"
    if err: "gpxError (pickGpx env picked st) \<noteq> None"
  proof -
    obtain g where "pickGpx env picked st = st\<lparr>gpxError := g, loadingGpx := False\<rparr>"
      using keep [OF err] by blast
    then show ?thesis by (simp add: region_def)
  qed
  have either: "route (pickGpx env picked st) = route st
       \<and> routeName (pickGpx env picked st) = routeName st
       \<or> (\<exists>d. route (pickGpx env picked st) = points (parseGpxDoc d)
              \<and> routeName (pickGpx env picked st) = name (parseGpxDoc d)
              \<and> gpxError (pickGpx env picked st) = None)"
  proof -
    from pickGpx_cases [of env picked st] consider
        g where "pickGpx env picked st = st\<lparr>gpxError := g, loadingGpx := False\<rparr>"
      | d where "pickGpx env picked st =
             st\<lparr>gpxError := None, routeName := name (parseGpxDoc d),
                route := points (parseGpxDoc d), mode := browse, loadingGpx := False\<rparr>"
      by blast
    then show ?thesis
    proof cases
      case 1
      then show ?thesis by simp
    next
      case 2
      then have "route (pickGpx env picked st) = points (parseGpxDoc d)
              \<and> routeName (pickGpx env picked st) = name (parseGpxDoc d)
              \<and> gpxError (pickGpx env picked st) = None"
        by simp
      then show ?thesis by blast
    qed
  qed
  show ?thesis
    using keep fields either pickGpx_malformed [of uri env xml e st]
      pickGpx_no_points [of uri env xml doc st] pickGpx_loaded [of uri env xml doc st]
    by blast
qed

text \<open>With the sample route loaded, a document that the decoder rejects and a document
  without points each leave the route in place; the sample document replaces it.\<close>

theorem failed_load_keeps_route_witness:
  "pickGpx (sample_env True GRANTED) (Selected (Some ''broken'')) sample_state
     = sample_state\<lparr>gpxError := Some ''Unexpected end of input''\<rparr>
   \<and> pickGpx (sample_env True GRANTED) (Selected (Some ''empty'')) sample_state
     = sample_state\<lparr>gpxError := Some ''No route points found in GPX''\<rparr>
   \<and> route (pickGpx (sample_env True GRANTED) (Selected (Some ''sample'')) sample_state)
     = [\<lparr>latitude = 47.5, longitude = 8.25\<rparr>, \<lparr>latitude = 0, longitude = 9\<rparr>]"
proof -
  let ?env = "sample_env True GRANTED"
  have rd: "readFile ?env ''broken'' = Inr ''broken''" "readFile ?env ''empty'' = Inr ''empty''"
    "readFile ?env ''sample'' = Inr ''sample''"
    by (simp_all add: sample_env_def)
  have xp: "xmlParse ?env ''broken'' = Inl (Some ''Unexpected end of input'')"
    "xmlParse ?env ''empty'' = Inr sample_doc_empty" "xmlParse ?env ''sample'' = Inr sample_doc"
    by (simp_all add: sample_env_def sample_decoder_def)
  have p0: "points (parseGpxDoc sample_doc_empty) = []"
    by code_simp
  have p1: "points (parseGpxDoc sample_doc)
      = [\<lparr>latitude = 47.5, longitude = 8.25\<rparr>, \<lparr>latitude = 0, longitude = 9\<rparr>]"
    by code_simp
  have l: "loadingGpx sample_state = False"
    by (simp add: sample_state_def initialState_def)
  have a: "pickGpx ?env (Selected (Some ''broken'')) sample_state
     = sample_state\<lparr>gpxError := Some ''Unexpected end of input''\<rparr>"
    using failed_load_keeps_route [of ?env "Selected (Some ''broken'')" sample_state
        "''broken''" "''broken''" "Some ''Unexpected end of input''" sample_doc_empty] rd xp l
    by (simp add: message_or_def)
  have b: "pickGpx ?env (Selected (Some ''empty'')) sample_state
     = sample_state\<lparr>gpxError := Some ''No route points found in GPX''\<rparr>"
    using failed_load_keeps_route [of ?env "Selected (Some ''empty'')" sample_state
        "''empty''" "''empty''" None sample_doc_empty] rd xp p0 l
    by simp
  have c: "route (pickGpx ?env (Selected (Some ''sample'')) sample_state)
     = [\<lparr>latitude = 47.5, longitude = 8.25\<rparr>, \<lparr>latitude = 0, longitude = 9\<rparr>]"
    using failed_load_keeps_route [of ?env "Selected (Some ''sample'')" sample_state
        "''sample''" "''sample''" None sample_doc] rd xp p1
    by simp
  from a b c show ?thesis by simp
qed

subsection \<open>Starting navigation\<close>

lemma startNavigation_ok:
  assumes "services env" "request env = GRANTED"
  shows "startNavigation env st =
     st\<lparr>gpsError := None, servicesEnabled := Some True, locPerm := granted, mode := drive\<rparr>"
  using assms by (simp add: startNavigation_def requestLocationPermission_def)

lemma startNavigation_failed:
  assumes "\<not> (services env \<and> request env = GRANTED)"
  shows "mode (startNavigation env st) = mode st"
    and "subscription (startNavigation env st) = subscription st"
    and "route (startNavigation env st) = route st"
  using assms by (auto simp add: startNavigation_def requestLocationPermission_def Let_def)

lemma startNavigation_gpsError:
  "gpsError (startNavigation env st) =
     (if services env \<and> request env = GRANTED then None
      else if no_text (gpsError st) then Some ''Location permission denied''
      else if \<not> services env then Some services_off_message
      else None)"
  by (simp add: startNavigation_def requestLocationPermission_def Let_def)

lemma mode_trackingEffect: "mode (trackingEffect env st) = mode st"
  by (simp add: trackingEffect_def requestLocationPermission_def Let_def split: WatchOutcome.split)

lemma subscription_trackingEffect_browse:
  "mode st \<noteq> drive \<Longrightarrow> trackingEffect env st = st"
  by (simp add: trackingEffect_def)

lemma mode_commit: "mode (commit env old new) = mode new"
  by (simp add: commit_def mode_trackingEffect trackingCleanup_def)

lemma commit_same_mode: "mode new = mode old \<Longrightarrow> commit env old new = new"
  by (simp add: commit_def)

lemma commit_to_browse:
  "mode new \<noteq> mode old \<Longrightarrow> mode new \<noteq> drive \<Longrightarrow> commit env old new = new\<lparr>subscription := False\<rparr>"
  by (simp add: commit_def trackingEffect_def trackingCleanup_def)

lemma NavMode_not_drive: "m \<noteq> drive \<longleftrightarrow> m = browse"
  by (cases m) simp_all

lemma mode_pickGpx: "mode (pickGpx env picked st) = mode st \<or> mode (pickGpx env picked st) = browse"
proof -
  from pickGpx_cases [of env picked st] consider
      g where "pickGpx env picked st = st\<lparr>gpxError := g, loadingGpx := False\<rparr>"
    | d where "pickGpx env picked st =
           st\<lparr>gpxError := None, routeName := name (parseGpxDoc d),
              route := points (parseGpxDoc d), mode := browse, loadingGpx := False\<rparr>"
    by blast
  then show ?thesis
    by cases simp_all
qed

lemma subscription_pickGpx: "subscription (pickGpx env picked st) = subscription st"
proof -
  from pickGpx_cases [of env picked st] consider
      g where "pickGpx env picked st = st\<lparr>gpxError := g, loadingGpx := False\<rparr>"
    | d where "pickGpx env picked st =
           st\<lparr>gpxError := None, routeName := name (parseGpxDoc d),
              route := points (parseGpxDoc d), mode := browse, loadingGpx := False\<rparr>"
    by blast
  then show ?thesis
    by cases simp_all
qed

text \<open>Only a successful start attempt leads into \<open>drive\<close>.\<close>

lemma step_enters_drive:
  assumes "mode st \<noteq> drive" "mode (step env ev st) = drive"
  shows "ev = PressStart \<and> services env \<and> request env = GRANTED \<and> route st \<noteq> []"
proof (cases ev)
  case (PressLoad picked)
  with assms mode_pickGpx [of env picked st] show ?thesis
    by (auto simp add: step_def mode_commit NavMode_not_drive split: if_splits)
next
  case PressStart
  show ?thesis
  proof (cases "services env \<and> request env = GRANTED")
    case True
    with assms PressStart show ?thesis
      by (auto simp add: step_def split: if_splits)
  next
    case False
    with assms PressStart startNavigation_failed(1) [OF False, of st] show ?thesis
      by (auto simp add: step_def mode_commit split: if_splits)
  qed
next
  case PressStop
  with assms show ?thesis by (simp add: step_def)
next
  case (PositionUpdate pos)
  with assms show ?thesis by (simp add: step_def onPosition_def split: if_splits)
next
  case PermissionProbe
  with assms show ?thesis by (simp add: step_def initialPermissionState_def)
qed

text \<open>A subscription is open only in \<open>drive\<close>.\<close>

lemma subscription_commit:
  "subscription (commit env old new) \<Longrightarrow>
     mode new = mode old \<and> subscription new \<or> mode new \<noteq> mode old \<and> mode new = drive"
  by (cases "mode new = mode old"; cases "mode new = drive")
     (simp_all add: commit_same_mode commit_to_browse)

lemma step_keeps_scope:
  assumes "subscription st \<longrightarrow> mode st = drive"
  shows "subscription (step env ev st) \<longrightarrow> mode (step env ev st) = drive"
proof (cases ev)
  case (PressLoad picked)
  show ?thesis
  proof (cases "loadingGpx st")
    case True
    with PressLoad assms show ?thesis by (simp add: step_def)
  next
    case False
    then have s: "step env ev st = commit env st (pickGpx env picked st)"
      using PressLoad by (simp add: step_def)
    show ?thesis
      using subscription_commit [of env st "pickGpx env picked st"] assms
      unfolding s mode_commit subscription_pickGpx by auto
  qed
next
  case PressStart
  show ?thesis
  proof (cases "route st \<noteq> [] \<and> mode st \<noteq> drive")
    case False
    with PressStart assms show ?thesis by (auto simp add: step_def)
  next
    case True
    then have s: "step env ev st = commit env st (startNavigation env st)"
      using PressStart by (simp add: step_def)
    show ?thesis
    proof (cases "services env \<and> request env = GRANTED")
      case ok: True
      then show ?thesis unfolding s mode_commit by (simp add: startNavigation_ok)
    next
      case failed: False
      from startNavigation_failed [OF failed, of st] True assms show ?thesis
        unfolding s by (simp add: commit_same_mode)
    qed
  qed
next
  case PressStop
  with assms show ?thesis
    by (simp add: step_def stopNavigation_def commit_to_browse)
next
  case (PositionUpdate pos)
  with assms show ?thesis by (simp add: step_def onPosition_def)
next
  case PermissionProbe
  with assms show ?thesis by (simp add: step_def initialPermissionState_def)
qed

lemma step_opens_subscription:
  assumes "\<not> subscription st" "subscription (step env ev st)" "subscription st \<longrightarrow> mode st = drive"
  shows "ev = PressStart \<and> services env \<and> request env = GRANTED \<and> route st \<noteq> []"
proof (cases "mode st = drive")
  case False
  from step_keeps_scope [OF assms(3), of env ev] assms(2)
  have "mode (step env ev st) = drive" by simp
  with False show ?thesis by (intro step_enters_drive)
next
  case True
  show ?thesis
  proof (cases ev)
    case (PressLoad picked)
    with assms(1,2) subscription_commit [of env st "pickGpx env picked st"]
      mode_pickGpx [of env picked st] True
    show ?thesis
      by (auto simp add: step_def subscription_pickGpx split: if_splits)
  next
    case PressStart
    with assms True show ?thesis by (simp add: step_def)
  next
    case PressStop
    with assms True show ?thesis
      by (simp add: step_def stopNavigation_def commit_to_browse)
  next
    case (PositionUpdate pos)
    with assms show ?thesis by (simp add: step_def)
  next
    case PermissionProbe
    with assms show ?thesis by (simp add: step_def initialPermissionState_def)
  qed
qed

lemma run_snoc: "run (evs @ [(env, ev)]) st = step env ev (run evs st)"
  by (induction evs arbitrary: st) auto

lemma run_scope: "subscription (run evs initialState) \<longrightarrow> mode (run evs initialState) = drive"
proof (induction evs rule: rev_induct)
  case Nil
  show ?case by (simp add: initialState_def)
next
  case (snoc x evs)
  obtain env ev where x: "x = (env, ev)" by (cases x)
  from step_keeps_scope [OF snoc.IH, of env ev] show ?case
    by (simp add: x run_snoc)
qed

text \<open>Every run that ends in \<open>drive\<close> contains a start attempt that was made outside
  \<open>drive\<close>, passed both checks, and after which the mode stayed \<open>drive\<close>.\<close>

lemma run_drive_entry:
  assumes "mode (run evs initialState) = drive"
  shows "\<exists>pre env post. evs = pre @ (env, PressStart) # post
          \<and> services env \<and> request env = GRANTED
          \<and> mode (run pre initialState) = browse
          \<and> (\<forall>k \<le> length post. mode (run (pre @ (env, PressStart) # take k post) initialState) = drive)"
  using assms
proof (induction evs rule: rev_induct)
  case Nil
  then show ?case by (simp add: initialState_def)
next
  case (snoc x evs)
  obtain e ev where x: "x = (e, ev)" by (cases x)
  have last: "mode (step e ev (run evs initialState)) = drive"
    using snoc.prems by (simp add: x run_snoc)
  show ?case
  proof (cases "mode (run evs initialState) = drive")
    case False
    from step_enters_drive [OF False last]
    have "ev = PressStart" "services e" "request e = GRANTED" by simp_all
    moreover from False have "mode (run evs initialState) = browse"
      by (simp add: NavMode_not_drive)
    ultimately have "evs @ [x] = evs @ (e, PressStart) # []
          \<and> services e \<and> request e = GRANTED
          \<and> mode (run evs initialState) = browse
          \<and> (\<forall>k \<le> length ([] :: (Env \<times> Event) list).
                mode (run (evs @ (e, PressStart) # take k []) initialState) = drive)"
      using snoc.prems by (simp add: x)
    then show ?thesis by blast
  next
    case True
    from snoc.IH [OF True] obtain pre env post where
      evs: "evs = pre @ (env, PressStart) # post"
      and ok: "services env" "request env = GRANTED"
      and before: "mode (run pre initialState) = browse"
      and stay: "\<forall>k \<le> length post. mode (run (pre @ (env, PressStart) # take k post) initialState) = drive"
      by blast
    have "mode (run (pre @ (env, PressStart) # take k (post @ [x])) initialState) = drive"
      if "k \<le> length (post @ [x])" for k
    proof (cases "k \<le> length post")
      case True
      with stay show ?thesis by simp
    next
      case False
      with that have "take k (post @ [x]) = post @ [x]" by simp
      then have "pre @ (env, PressStart) # take k (post @ [x]) = evs @ [x]"
        by (simp only: evs append.simps append_assoc)
      then show ?thesis using snoc.prems by (simp only:)
    qed
    then have "evs @ [x] = pre @ (env, PressStart) # (post @ [x])
          \<and> services env \<and> request env = GRANTED
          \<and> mode (run pre initialState) = browse
          \<and> (\<forall>k \<le> length (post @ [x]).
                mode (run (pre @ (env, PressStart) # take k (post @ [x])) initialState) = drive)"
      using evs ok before by simp
    then show ?thesis by blast
  qed
qed

text \<open>
  C7. A start attempt made while location services are off leaves the mode and the
  subscription as they were, whatever the permission request answers: from browse mode
  without a subscription the controller stays there. A step that enters \<open>drive\<close>, or that
  opens a subscription, is a start attempt at which services were on and the permission
  was granted. In every state reached from the initial one a subscription is open only in
  \<open>drive\<close>, and a state in \<open>drive\<close> was entered by such an attempt, made in browse mode,
  after which the mode stayed \<open>drive\<close>.
\<close>

theorem start_needs_services_and_permission:
  "(\<not> services env \<longrightarrow>
      mode (startNavigation env st) = mode st
      \<and> subscription (startNavigation env st) = subscription st
      \<and> mode (step env PressStart st) = mode st
      \<and> subscription (step env PressStart st) = subscription st)
   \<and> (\<not> services env \<and> mode st = browse \<and> \<not> subscription st \<longrightarrow>
      mode (step env PressStart st) = browse \<and> \<not> subscription (step env PressStart st))
   \<and> (mode st = browse \<and> mode (step env ev st) = drive \<longrightarrow>
      ev = PressStart \<and> services env \<and> request env = GRANTED)
   \<and> (\<not> subscription st \<and> subscription (step env ev st) \<longrightarrow>
      ev = PressStart \<and> services env \<and> request env = GRANTED)
   \<and> (subscription (run evs initialState) \<longrightarrow> mode (run evs initialState) = drive)
   \<and> (mode (run evs initialState) = drive \<or> subscription (run evs initialState) \<longrightarrow>
      (\<exists>pre env' post. evs = pre @ (env', PressStart) # post
          \<and> services env' \<and> request env' = GRANTED
          \<and> mode (run pre initialState) = browse
          \<and> (\<forall>k \<le> length post.
                mode (run (pre @ (env', PressStart) # take k post) initialState) = drive)))"
proof -
  have off: "mode (startNavigation env st) = mode st
      \<and> subscription (startNavigation env st) = subscription st
      \<and> mode (step env PressStart st) = mode st
      \<and> subscription (step env PressStart st) = subscription st" if "\<not> services env"
  proof -
    from that have failed: "\<not> (services env \<and> request env = GRANTED)" by simp
    note keep = startNavigation_failed [OF failed, of st]
    have "step env PressStart st = st \<or> step env PressStart st = startNavigation env st"
      using keep(1) by (simp add: step_def commit_same_mode)
    with keep show ?thesis by auto
  qed
  then have off': "mode (step env PressStart st) = browse \<and> \<not> subscription (step env PressStart st)"
    if "\<not> services env" "mode st = browse" "\<not> subscription st"
    using that by simp
  have enter: "ev = PressStart \<and> services env \<and> request env = GRANTED"
    if "mode st = browse" "mode (step env ev st) = drive"
    using step_enters_drive [of st env ev] that by simp
  have opens: "ev = PressStart \<and> services env \<and> request env = GRANTED"
    if "\<not> subscription st" "subscription (step env ev st)"
    using step_opens_subscription [of st env ev] that by simp
  have scope: "subscription (run evs initialState) \<longrightarrow> mode (run evs initialState) = drive"
    by (rule run_scope)
  have entry: "\<exists>pre env' post. evs = pre @ (env', PressStart) # post
          \<and> services env' \<and> request env' = GRANTED
          \<and> mode (run pre initialState) = browse
          \<and> (\<forall>k \<le> length post.
                mode (run (pre @ (env', PressStart) # take k post) initialState) = drive)"
    if "mode (run evs initialState) = drive \<or> subscription (run evs initialState)"
  proof -
    from that scope have "mode (run evs initialState) = drive" by blast
    then show ?thesis by (rule run_drive_entry)
  qed
  show ?thesis
    using off off' enter opens scope entry by blast
qed

text \<open>With a route loaded and services off, pressing Start leaves the controller in browse
  mode without a subscription although the permission is granted. Loading the sample and
  pressing Start with services on and the permission granted ends in \<open>drive\<close> with a
  subscription.\<close>

theorem start_needs_services_and_permission_witness:
  "\<not> services (sample_env False GRANTED) \<and> mode sample_state = browse
   \<and> \<not> subscription sample_state
   \<and> mode (step (sample_env False GRANTED) PressStart sample_state) = browse
   \<and> \<not> subscription (step (sample_env False GRANTED) PressStart sample_state)
   \<and> mode (step (sample_env True GRANTED) PressStart sample_state) = drive
   \<and> subscription (step (sample_env True GRANTED) PressStart sample_state)
   \<and> mode (run [(sample_env True GRANTED, PressLoad (Selected (Some ''sample''))),
                 (sample_env True GRANTED, PressStart)] initialState) = drive
   \<and> subscription (run [(sample_env True GRANTED, PressLoad (Selected (Some ''sample''))),
                         (sample_env True GRANTED, PressStart)] initialState)"
proof -
  let ?on = "sample_env True GRANTED"
  have a: "\<not> services (sample_env False GRANTED)" "mode sample_state = browse"
    "\<not> subscription sample_state"
    by (simp_all add: sample_env_def sample_state_def initialState_def)
  have env: "services ?on" "request ?on = GRANTED" "watch ?on = Subscribed"
    "readFile ?on ''sample'' = Inr ''sample''" "xmlParse ?on ''sample'' = Inr sample_doc"
    by (simp_all add: sample_env_def sample_decoder_def)
  have pts: "points (parseGpxDoc sample_doc) \<noteq> []"
    by code_simp
  have loaded: "step ?on (PressLoad (Selected (Some ''sample''))) initialState =
      initialState\<lparr>routeName := name (parseGpxDoc sample_doc),
                   route := points (parseGpxDoc sample_doc)\<rparr>"
    using env pts
    by (simp add: step_def pickGpx_loaded [of "''sample''" ?on "''sample''" sample_doc]
        commit_same_mode initialState_def)
  have started: "step ?on PressStart (initialState\<lparr>routeName := name (parseGpxDoc sample_doc),
                   route := points (parseGpxDoc sample_doc)\<rparr>) =
      initialState\<lparr>routeName := name (parseGpxDoc sample_doc),
                   route := points (parseGpxDoc sample_doc), gpsError := None,
                   servicesEnabled := Some True, locPerm := granted, mode := drive,
                   subscription := True\<rparr>"
    using env pts
    by (simp add: step_def startNavigation_ok commit_def trackingCleanup_def trackingEffect_def
        initialState_def)
  have b: "mode (run [(?on, PressLoad (Selected (Some ''sample''))), (?on, PressStart)]
        initialState) = drive"
    "subscription (run [(?on, PressLoad (Selected (Some ''sample''))), (?on, PressStart)]
        initialState)"
    by (simp_all add: loaded started)
  have c: "mode (step ?on PressStart sample_state) = drive"
    "subscription (step ?on PressStart sample_state)"
    using env
    by (simp_all add: step_def startNavigation_ok commit_def trackingCleanup_def
        trackingEffect_def sample_state_def initialState_def)
  from start_needs_services_and_permission [of "sample_env False GRANTED" sample_state
      PressStart "[(?on, PressLoad (Selected (Some ''sample''))), (?on, PressStart)]"]
    start_needs_services_and_permission [of ?on sample_state PressStart "[]"] a b c
  show ?thesis by simp
qed

text \<open>
  C9, the code at two inputs. With no error shown, a route loaded and location services
  off, pressing Start ends with the generic message, not the services message: the test
  of line 113 reads the error of before the attempt. With an earlier error still shown,
  services on and the permission denied, the failed attempt ends with no message at all.
\<close>

theorem start_error_message_replaced:
  "gpsError sample_state = None
   \<and> gpsError (step (sample_env False GRANTED) PressStart sample_state)
       = Some ''Location permission denied''
   \<and> gpsError (step (sample_env False GRANTED) PressStart sample_state)
       \<noteq> Some services_off_message
   \<and> mode (step (sample_env False GRANTED) PressStart sample_state) = browse
   \<and> gpsError (step (sample_env True DENIED) PressStart
                 (sample_state\<lparr>gpsError := Some ''GPS error''\<rparr>)) = None
   \<and> mode (step (sample_env True DENIED) PressStart
                 (sample_state\<lparr>gpsError := Some ''GPS error''\<rparr>)) = browse"
proof -
  have st: "route sample_state \<noteq> []" "mode sample_state = browse" "gpsError sample_state = None"
    by (simp_all add: sample_state_def initialState_def)
  have off: "\<not> (services (sample_env False GRANTED) \<and> request (sample_env False GRANTED) = GRANTED)"
    and den: "\<not> (services (sample_env True DENIED) \<and> request (sample_env True DENIED) = GRANTED)"
    by (simp_all add: sample_env_def)
  have s1: "step (sample_env False GRANTED) PressStart sample_state
      = startNavigation (sample_env False GRANTED) sample_state"
    using st startNavigation_failed(1) [OF off, of sample_state]
    by (simp add: step_def commit_same_mode)
  have s2: "step (sample_env True DENIED) PressStart (sample_state\<lparr>gpsError := Some ''GPS error''\<rparr>)
      = startNavigation (sample_env True DENIED) (sample_state\<lparr>gpsError := Some ''GPS error''\<rparr>)"
    using st startNavigation_failed(1) [OF den, of "sample_state\<lparr>gpsError := Some ''GPS error''\<rparr>"]
    by (simp add: step_def commit_same_mode)
  have m1: "mode (startNavigation (sample_env False GRANTED) sample_state) = browse"
    using startNavigation_failed(1) [OF off, of sample_state] st by simp
  have m2: "mode (startNavigation (sample_env True DENIED)
      (sample_state\<lparr>gpsError := Some ''GPS error''\<rparr>)) = browse"
    using startNavigation_failed(1) [OF den, of "sample_state\<lparr>gpsError := Some ''GPS error''\<rparr>"] st
    by simp
  show ?thesis
    unfolding s1 s2 startNavigation_gpsError
    using st m1 m2
    by (simp add: sample_env_def no_text_def services_off_message_def)
qed

end
